theory Spec2Isabelle
  imports Main "HOL-Library.Sublist"
begin

section \<open>The Git layer of the file explorer (class GitManager of main.py)\<close>

text \<open>
  \<^verbatim>\<open>GitManager\<close> is a stateless class of static methods. Every method but
  \<^verbatim>\<open>is_git_repo\<close> runs the \<^verbatim>\<open>git\<close> executable through \<^verbatim>\<open>subprocess.run\<close> with an
  argument vector and a timeout, inside \<^verbatim>\<open>try: ... except Exception\<close>, and turns exit
  code, standard output and standard error into its result.

  The embedding keeps the methods' names and bodies. What lies outside the program (the
  \<^verbatim>\<open>git\<close> executable, the operating system's process launch, the file system) is a
  parameter of each definition, so every theorem holds for whatever these do.
\<close>

subsection \<open>Python string methods used by the class\<close>

text \<open>
  A Python \<^verbatim>\<open>str\<close> is modelled as a \<^typ>\<open>string\<close>, each \<^typ>\<open>char\<close> standing for one
  code point below 256. \<^verbatim>\<open>str.strip()\<close> without argument removes the characters for
  which \<^verbatim>\<open>str.isspace\<close> holds; below 256 these are the code points 9 to 13, 28 to 32,
  133 and 160.
\<close>

definition isspace :: "char \<Rightarrow> bool" where
  "isspace c =
     (let n = (of_char c :: nat)
      in (9 \<le> n \<and> n \<le> 13) \<or> (28 \<le> n \<and> n \<le> 32) \<or> n = 133 \<or> n = 160)"

definition lstrip :: "string \<Rightarrow> string" where
  "lstrip s = dropWhile isspace s"

definition rstrip :: "string \<Rightarrow> string" where
  "rstrip s = rev (dropWhile isspace (rev s))"

definition strip :: "string \<Rightarrow> string" where
  "strip s = rstrip (lstrip s)"

text \<open>\<^verbatim>\<open>s.lstrip(chars)\<close>: \<^verbatim>\<open>chars\<close> is a set of characters, not a prefix.\<close>

definition lstrip_chars :: "string \<Rightarrow> string \<Rightarrow> string" where
  "lstrip_chars chars s = dropWhile (\<lambda>c. c \<in> set chars) s"

definition startswith :: "string \<Rightarrow> string \<Rightarrow> bool" where
  "startswith s p = (take (length p) s = p)"

text \<open>
  \<^verbatim>\<open>s.split(sep)\<close> for a one-character separator: the pieces between the separators;
  the result is never empty, and \<^verbatim>\<open>''.split(sep)\<close> is \<^verbatim>\<open>['']\<close>.
\<close>

fun split_char :: "char \<Rightarrow> string \<Rightarrow> string list" where
  "split_char sep [] = [[]]"
| "split_char sep (c # cs) =
     (if c = sep then [] # split_char sep cs
      else (case split_char sep cs of
              [] \<Rightarrow> [[c]]
            | l # ls \<Rightarrow> (c # l) # ls))"

abbreviation newline :: char where
  "newline \<equiv> CHR 0x0A"

text \<open>
  \<^verbatim>\<open>s.replace(old, '')\<close> for a non-empty \<^verbatim>\<open>old\<close>: the occurrences of \<^verbatim>\<open>old\<close> are
  found from left to right without overlap and all of them are removed.
\<close>

function remove_all :: "string \<Rightarrow> string \<Rightarrow> string" where
  "remove_all old s =
     (if s = [] \<or> old = [] then s
      else if startswith s old then remove_all old (drop (length old) s)
      else hd s # remove_all old (tl s))"
  by pat_completeness auto
termination
  by (relation "measure (\<lambda>(old, s). length s)") auto

declare remove_all.simps [simp del]

subsection \<open>Running the external tool\<close>

text \<open>
  \<^verbatim>\<open>subprocess.run(argv, capture_output=True, text=True, timeout=t)\<close> either returns a
  completed process (exit code, standard output, standard error) or raises: the executable
  is not found or may not be executed, the timeout expires, the arguments are refused, the
  output cannot be decoded. All of these are subclasses of \<^verbatim>\<open>Exception\<close>; the string is
  \<^verbatim>\<open>str(e)\<close>. Signals of the interpreter itself (\<^verbatim>\<open>KeyboardInterrupt\<close>, \<^verbatim>\<open>SystemExit\<close>)
  are not results of the call and are not modelled.
\<close>

datatype exc_class =
    FileNotFoundError
  | PermissionError
  | OSError
  | TimeoutExpired
  | ValueError
  | UnicodeDecodeError

datatype run_result =
    Completed (returncode: int) (stdout: string) (stderr: string)
  | Raised exc_class string

text \<open>
  The tool and the system it runs on are a transition function on a world \<^typ>\<open>'w\<close>:
  from the argument vector and the timeout in seconds to the result of the call and the
  world after it. A session is the world together with the log of the calls made so far,
  each with its argument vector and its timeout.
\<close>

type_synonym 'w tool = "'w \<Rightarrow> string list \<Rightarrow> nat \<Rightarrow> run_result \<times> 'w"

record 'w session =
  world :: 'w
  calls :: "(string list \<times> nat) list"

definition subprocess_run ::
  "'w tool \<Rightarrow> string list \<Rightarrow> nat \<Rightarrow> 'w session \<Rightarrow> run_result \<times> 'w session" where
  "subprocess_run git argv timeout s =
     (case git (world s) argv timeout of
        (r, w') \<Rightarrow> (r, \<lparr>world = w', calls = calls s @ [(argv, timeout)]\<rparr>))"

subsection \<open>Repository Inspector\<close>

text \<open>
  \<^verbatim>\<open>is_git_repo\<close>: \<^verbatim>\<open>os.path.isdir(os.path.join(path, '.git'))\<close>. The file system is the
  predicate \<open>isdir\<close>, which like \<^verbatim>\<open>os.path.isdir\<close> answers \<open>False\<close> for a path that does
  not exist. \<open>path_join\<close> is POSIX \<^verbatim>\<open>os.path.join\<close> of two components.
\<close>

definition path_join :: "string \<Rightarrow> string \<Rightarrow> string" where
  "path_join a b =
     (if startswith b ''/'' then b
      else if a = [] \<or> last a = CHR ''/'' then a @ b
      else a @ ''/'' @ b)"

definition is_git_repo :: "(string \<Rightarrow> bool) \<Rightarrow> string \<Rightarrow> bool" where
  "is_git_repo isdir path = (let git_dir = path_join path ''.git'' in isdir git_dir)"

record repo_status =
  modified :: nat
  added :: nat
  deleted :: nat
  clean :: bool

text \<open>
  The three generator expressions of \<^verbatim>\<open>get_repo_status\<close> and the dictionary it
  returns, as a function of the list \<^verbatim>\<open>lines\<close>.
\<close>

definition is_modified :: "string \<Rightarrow> bool" where
  "is_modified line = (startswith line '' M'' \<or> startswith line ''M '')"

definition is_added :: "string \<Rightarrow> bool" where
  "is_added line = (startswith line ''A '' \<or> startswith line ''??'')"

definition is_deleted :: "string \<Rightarrow> bool" where
  "is_deleted line = (startswith line '' D'' \<or> startswith line ''D '')"

definition status_of_lines :: "string list \<Rightarrow> repo_status" where
  "status_of_lines lines =
     \<lparr>modified = length (filter is_modified lines),
      added = length (filter is_added lines),
      deleted = length (filter is_deleted lines),
      clean = (length lines = 1 \<and> lines ! 0 = [])\<rparr>"

definition status_lines :: "string \<Rightarrow> string list" where
  "status_lines out = split_char newline (strip out)"

definition get_repo_status ::
  "'w tool \<Rightarrow> string \<Rightarrow> 'w session \<Rightarrow> repo_status option \<times> 'w session" where
  "get_repo_status git path s =
     (case subprocess_run git [''git'', ''-C'', path, ''status'', ''--porcelain''] 5 s of
        (Raised c e, s') \<Rightarrow> (None, s')
      | (Completed rc out err, s') \<Rightarrow>
          if rc = 0 then (Some (status_of_lines (status_lines out)), s')
          else (None, s'))"

definition get_current_branch ::
  "'w tool \<Rightarrow> string \<Rightarrow> 'w session \<Rightarrow> string option \<times> 'w session" where
  "get_current_branch git path s =
     (case subprocess_run git [''git'', ''-C'', path, ''branch'', ''--show-current''] 2 s of
        (Raised c e, s') \<Rightarrow> (None, s')
      | (Completed rc out err, s') \<Rightarrow>
          if rc = 0 then (Some (strip out), s') else (None, s'))"

definition get_remote_url ::
  "'w tool \<Rightarrow> string \<Rightarrow> 'w session \<Rightarrow> string option \<times> 'w session" where
  "get_remote_url git path s =
     (case subprocess_run git [''git'', ''-C'', path, ''remote'', ''get-url'', ''origin''] 2 s of
        (Raised c e, s') \<Rightarrow> (None, s')
      | (Completed rc out err, s') \<Rightarrow>
          if rc = 0 then (Some (strip out), s') else (None, s'))"

definition has_upstream_branch ::
  "'w tool \<Rightarrow> string \<Rightarrow> 'w session \<Rightarrow> bool \<times> 'w session" where
  "has_upstream_branch git path s =
     (case subprocess_run git
             [''git'', ''-C'', path, ''rev-parse'', ''--abbrev-ref'',
              ''--symbolic-full-name'', CHR ''@'' # ''{u}''] 2 s of
        (Raised c e, s') \<Rightarrow> (False, s')
      | (Completed rc out err, s') \<Rightarrow> (rc = 0 \<and> strip out \<noteq> [], s'))"

text \<open>
  The loop body of \<^verbatim>\<open>get_all_branches\<close>: \<open>branches\<close> is the list built so far, the
  result is the list after the line.
\<close>

definition branch_of_line :: "string \<Rightarrow> string" where
  "branch_of_line line = strip (lstrip_chars ''* '' (strip line))"

definition add_branch_line :: "string list \<Rightarrow> string \<Rightarrow> string list" where
  "add_branch_line branches line =
     (let branch = branch_of_line line
      in if branch \<noteq> [] \<and> \<not> startswith branch ''remotes/origin/HEAD'' then
           (let branch = (if startswith branch ''remotes/origin/''
                          then remove_all ''remotes/origin/'' branch else branch)
            in if branch \<notin> set branches then branches @ [branch] else branches)
         else branches)"

definition branches_of_output :: "string \<Rightarrow> string list" where
  "branches_of_output out = foldl add_branch_line [] (split_char newline (strip out))"

definition get_all_branches ::
  "'w tool \<Rightarrow> string \<Rightarrow> 'w session \<Rightarrow> string list \<times> 'w session" where
  "get_all_branches git path s =
     (case subprocess_run git [''git'', ''-C'', path, ''branch'', ''-a''] 5 s of
        (Raised c e, s') \<Rightarrow> ([], s')
      | (Completed rc out err, s') \<Rightarrow>
          if rc = 0 then (branches_of_output out, s') else ([], s'))"

subsection \<open>Mutation Operations\<close>

text \<open>
  Each returns the pair \<^verbatim>\<open>(success, message)\<close>. The \<open>Raised\<close> branch of a call is the
  \<^verbatim>\<open>except Exception as e: return False, str(e)\<close> of the method.
\<close>

abbreviation quote :: char where
  "quote \<equiv> CHR 0x27"

definition add_remote ::
  "'w tool \<Rightarrow> string \<Rightarrow> string \<Rightarrow> string \<Rightarrow> 'w session \<Rightarrow> (bool \<times> string) \<times> 'w session" where
  "add_remote git path name url s =
     (case subprocess_run git [''git'', ''-C'', path, ''remote'', ''add'', name, url] 5 s of
        (Raised c e, s') \<Rightarrow> ((False, e), s')
      | (Completed rc out err, s') \<Rightarrow>
          if rc = 0 then ((True, ''Remote added successfully''), s')
          else ((False, err), s'))"

definition set_upstream ::
  "'w tool \<Rightarrow> string \<Rightarrow> string \<Rightarrow> string \<Rightarrow> 'w session \<Rightarrow> (bool \<times> string) \<times> 'w session" where
  "set_upstream git path remote_name branch_name s =
     (case subprocess_run git
             [''git'', ''-C'', path, ''branch'', ''--set-upstream-to'',
              remote_name @ ''/'' @ branch_name] 5 s of
        (Raised c e, s') \<Rightarrow> ((False, e), s')
      | (Completed rc out err, s') \<Rightarrow>
          if rc = 0 then ((True, ''Upstream set successfully''), s')
          else ((False, err), s'))"

definition push_set_upstream ::
  "'w tool \<Rightarrow> string \<Rightarrow> string \<Rightarrow> string \<Rightarrow> 'w session \<Rightarrow> (bool \<times> string) \<times> 'w session" where
  "push_set_upstream git path remote_name branch_name s =
     (case subprocess_run git
             [''git'', ''-C'', path, ''push'', ''--set-upstream'', remote_name, branch_name]
             30 s of
        (Raised c e, s') \<Rightarrow> ((False, e), s')
      | (Completed rc out err, s') \<Rightarrow>
          if rc = 0 then ((True, ''Push successful and upstream set''), s')
          else ((False, err), s'))"

text \<open>The second half of \<^verbatim>\<open>commit_changes\<close>, after the optional staging.\<close>

definition commit_step ::
  "'w tool \<Rightarrow> string \<Rightarrow> string \<Rightarrow> 'w session \<Rightarrow> (bool \<times> string) \<times> 'w session" where
  "commit_step git path message s =
     (case subprocess_run git [''git'', ''-C'', path, ''commit'', ''-m'', message] 5 s of
        (Raised c e, s') \<Rightarrow> ((False, e), s')
      | (Completed rc out err, s') \<Rightarrow>
          if rc = 0 then ((True, ''Commit successful''), s')
          else ((False, err), s'))"

definition commit_changes ::
  "'w tool \<Rightarrow> string \<Rightarrow> string \<Rightarrow> bool \<Rightarrow> 'w session \<Rightarrow> (bool \<times> string) \<times> 'w session" where
  "commit_changes git path message add_all s =
     (if add_all then
        (case subprocess_run git [''git'', ''-C'', path, ''add'', ''-A''] 5 s of
           (Raised c e, s') \<Rightarrow> ((False, e), s')
         | (Completed rc out err, s') \<Rightarrow>
             if rc \<noteq> 0 then ((False, ''Failed to stage files: '' @ err), s')
             else commit_step git path message s')
      else commit_step git path message s)"

definition push_changes ::
  "'w tool \<Rightarrow> string \<Rightarrow> 'w session \<Rightarrow> (bool \<times> string) \<times> 'w session" where
  "push_changes git path s =
     (case subprocess_run git [''git'', ''-C'', path, ''push''] 30 s of
        (Raised c e, s') \<Rightarrow> ((False, e), s')
      | (Completed rc out err, s') \<Rightarrow>
          if rc = 0 then ((True, ''Push successful''), s')
          else ((False, err), s'))"

definition pull_changes ::
  "'w tool \<Rightarrow> string \<Rightarrow> 'w session \<Rightarrow> (bool \<times> string) \<times> 'w session" where
  "pull_changes git path s =
     (case subprocess_run git [''git'', ''-C'', path, ''pull''] 30 s of
        (Raised c e, s') \<Rightarrow> ((False, e), s')
      | (Completed rc out err, s') \<Rightarrow>
          if rc = 0 then ((True, ''Pull successful''), s')
          else ((False, err), s'))"

definition checkout_branch ::
  "'w tool \<Rightarrow> string \<Rightarrow> string \<Rightarrow> 'w session \<Rightarrow> (bool \<times> string) \<times> 'w session" where
  "checkout_branch git path branch_name s =
     (case subprocess_run git [''git'', ''-C'', path, ''checkout'', branch_name] 5 s of
        (Raised c e, s') \<Rightarrow> ((False, e), s')
      | (Completed rc out err, s') \<Rightarrow>
          if rc = 0 then ((True, ''Switched to branch '' @ [quote] @ branch_name @ [quote]), s')
          else ((False, err), s'))"

definition create_branch ::
  "'w tool \<Rightarrow> string \<Rightarrow> string \<Rightarrow> 'w session \<Rightarrow> (bool \<times> string) \<times> 'w session" where
  "create_branch git path branch_name s =
     (case subprocess_run git [''git'', ''-C'', path, ''checkout'', ''-b'', branch_name] 5 s of
        (Raised c e, s') \<Rightarrow> ((False, e), s')
      | (Completed rc out err, s') \<Rightarrow>
          if rc = 0 then
            ((True, ''Created and switched to branch '' @ [quote] @ branch_name @ [quote]), s')
          else ((False, err), s'))"

text \<open>The second half of \<^verbatim>\<open>rename_branch\<close>, after the optional checkout.\<close>

definition rename_step ::
  "'w tool \<Rightarrow> string \<Rightarrow> string \<Rightarrow> string \<Rightarrow> 'w session \<Rightarrow> (bool \<times> string) \<times> 'w session" where
  "rename_step git path old_name new_name s =
     (case subprocess_run git [''git'', ''-C'', path, ''branch'', ''-m'', new_name] 5 s of
        (Raised c e, s') \<Rightarrow> ((False, e), s')
      | (Completed rc out err, s') \<Rightarrow>
          if rc = 0 then
            ((True, ''Branch renamed from '' @ [quote] @ old_name @ [quote] @ '' to ''
                      @ [quote] @ new_name @ [quote]), s')
          else ((False, err), s'))"

text \<open>
  \<^verbatim>\<open>get_current_branch\<close> has its own \<^verbatim>\<open>try\<close>: a call that raises inside it gives
  \<^verbatim>\<open>None\<close>, and \<^verbatim>\<open>None != old_name\<close> holds for every string.
\<close>

definition rename_branch ::
  "'w tool \<Rightarrow> string \<Rightarrow> string \<Rightarrow> string \<Rightarrow> 'w session \<Rightarrow> (bool \<times> string) \<times> 'w session" where
  "rename_branch git path old_name new_name s =
     (case get_current_branch git path s of
        (current_branch, s1) \<Rightarrow>
          if current_branch \<noteq> Some old_name then
            (case subprocess_run git [''git'', ''-C'', path, ''checkout'', old_name] 5 s1 of
               (Raised c e, s2) \<Rightarrow> ((False, e), s2)
             | (Completed rc out err, s2) \<Rightarrow>
                 if rc \<noteq> 0 then ((False, ''Failed to checkout branch: '' @ err), s2)
                 else rename_step git path old_name new_name s2)
          else rename_step git path old_name new_name s1)"


subsection \<open>Concrete tools for running the definitions\<close>

text \<open>
  A scripted tool answers the calls with the results of a list, one after the other,
  whatever the arguments; when the list is used up, launching fails.
\<close>

fun scripted :: "run_result list tool" where
  "scripted [] argv t = (Raised FileNotFoundError ''[Errno 2] No such file or directory'', [])"
| "scripted (r # rs) argv t = (r, rs)"

definition script :: "run_result list \<Rightarrow> run_result list session" where
  "script rs = \<lparr>world = rs, calls = []\<rparr>"

subsection \<open>Vocabulary for the statements\<close>

text \<open>The argument vectors the methods pass to \<^verbatim>\<open>subprocess.run\<close>.\<close>

abbreviation status_argv :: "string \<Rightarrow> string list" where
  "status_argv path \<equiv> [''git'', ''-C'', path, ''status'', ''--porcelain'']"

abbreviation current_argv :: "string \<Rightarrow> string list" where
  "current_argv path \<equiv> [''git'', ''-C'', path, ''branch'', ''--show-current'']"

abbreviation remote_url_argv :: "string \<Rightarrow> string list" where
  "remote_url_argv path \<equiv> [''git'', ''-C'', path, ''remote'', ''get-url'', ''origin'']"

abbreviation upstream_argv :: "string \<Rightarrow> string list" where
  "upstream_argv path \<equiv>
     [''git'', ''-C'', path, ''rev-parse'', ''--abbrev-ref'', ''--symbolic-full-name'',
      CHR ''@'' # ''{u}'']"

abbreviation branches_argv :: "string \<Rightarrow> string list" where
  "branches_argv path \<equiv> [''git'', ''-C'', path, ''branch'', ''-a'']"

abbreviation stage_argv :: "string \<Rightarrow> string list" where
  "stage_argv path \<equiv> [''git'', ''-C'', path, ''add'', ''-A'']"

abbreviation commit_argv :: "string \<Rightarrow> string \<Rightarrow> string list" where
  "commit_argv path message \<equiv> [''git'', ''-C'', path, ''commit'', ''-m'', message]"

abbreviation checkout_argv :: "string \<Rightarrow> string \<Rightarrow> string list" where
  "checkout_argv path branch_name \<equiv> [''git'', ''-C'', path, ''checkout'', branch_name]"

abbreviation rename_argv :: "string \<Rightarrow> string \<Rightarrow> string list" where
  "rename_argv path new_name \<equiv> [''git'', ''-C'', path, ''branch'', ''-m'', new_name]"

text \<open>What a call answers in a session, and the session after the call.\<close>

definition answer :: "'w tool \<Rightarrow> string list \<Rightarrow> nat \<Rightarrow> 'w session \<Rightarrow> run_result" where
  "answer git argv t s = fst (subprocess_run git argv t s)"

definition after_call :: "'w tool \<Rightarrow> string list \<Rightarrow> nat \<Rightarrow> 'w session \<Rightarrow> 'w session" where
  "after_call git argv t s = snd (subprocess_run git argv t s)"

text \<open>The calls a method added to the log, and the timeouts it used.\<close>

definition new_calls :: "'w session \<Rightarrow> 'w session \<Rightarrow> (string list \<times> nat) list" where
  "new_calls s s' = drop (length (calls s)) (calls s')"

definition timeouts_used :: "'w session \<Rightarrow> 'w session \<Rightarrow> nat set" where
  "timeouts_used s s' = set (map snd (new_calls s s'))"







text \<open>
  A small stand-in for \<^verbatim>\<open>git\<close> on one repository, to run the branch operations on: the
  world is the checked-out branch (empty when no branch is checked out) and the list of
  local branches. It refuses a new name that has surrounding white space.
\<close>

record repo =
  head_branch :: string
  local_branches :: "string list"



text \<open>
  A call failed when it raised or exited with a code other than 0; its text is the
  exception's text or the standard error.
\<close>

definition failed :: "run_result \<Rightarrow> bool" where
  "failed r = (case r of Raised c e \<Rightarrow> True | Completed rc out err \<Rightarrow> rc \<noteq> 0)"

definition failure_text :: "run_result \<Rightarrow> string" where
  "failure_text r = (case r of Raised c e \<Rightarrow> e | Completed rc out err \<Rightarrow> err)"

section \<open>Properties\<close>

subsection \<open>Facts about the string methods\<close>

lemma startswith_Nil [simp]: "startswith [] p \<longleftrightarrow> p = []"
  by (auto simp: startswith_def)

lemma split_char_not_Nil [simp]: "split_char sep s \<noteq> []"
  by (induction s) (auto split: list.splits)

lemma length_split_char: "length (split_char sep s) = Suc (length (filter (\<lambda>c. c = sep) s))"
  by (induction s) (auto split: list.splits)

lemma split_char_single_empty: "split_char sep s = [[]] \<longleftrightarrow> s = []"
  by (cases s) (auto split: list.splits)

lemma all_split_char:
  "(\<forall>l\<in>set (split_char sep s). \<forall>c\<in>set l. P c) \<longleftrightarrow> (\<forall>c\<in>set s. c \<noteq> sep \<longrightarrow> P c)"
proof (induction s)
  case Nil
  show ?case by simp
next
  case (Cons a s)
  obtain l ls where sp: "split_char sep s = l # ls"
    by (cases "split_char sep s") simp_all
  show ?case
  proof (cases "a = sep")
    case True
    with Cons show ?thesis by simp
  next
    case False
    with Cons sp show ?thesis by auto
  qed
qed

lemma strip_empty_iff: "strip s = [] \<longleftrightarrow> (\<forall>c\<in>set s. isspace c)"
proof -
  have "strip s = [] \<longleftrightarrow> dropWhile isspace s = []"
    by (auto simp: strip_def rstrip_def lstrip_def dest: set_dropWhileD)
       (metis dropWhile_eq_Nil_conv hd_dropWhile list.set_sel(1))
  then show ?thesis by simp
qed

lemma filter_dropWhile_le: "length (filter Q (dropWhile P xs)) \<le> length (filter Q xs)"
  by (induction xs) auto

lemma filter_strip_le: "length (filter Q (strip s)) \<le> length (filter Q s)"
proof -
  have "length (filter Q (strip s)) = length (filter Q (dropWhile isspace (rev (lstrip s))))"
    by (simp add: strip_def rstrip_def rev_filter [symmetric])
  also have "\<dots> \<le> length (filter Q (rev (lstrip s)))" by (rule filter_dropWhile_le)
  also have "\<dots> = length (filter Q (lstrip s))" by (simp add: rev_filter [symmetric])
  also have "\<dots> \<le> length (filter Q s)" unfolding lstrip_def by (rule filter_dropWhile_le)
  finally show ?thesis .
qed

lemma isspace_newline: "isspace newline"
  by (simp add: isspace_def)

subsection \<open>Each method as a function of the tool's answers\<close>

lemma subprocess_run_eq:
  "subprocess_run git argv t s =
     (fst (git (world s) argv t),
      \<lparr>world = snd (git (world s) argv t), calls = calls s @ [(argv, t)]\<rparr>)"
  by (simp add: subprocess_run_def split: prod.splits)

lemma subprocess_run_split:
  "subprocess_run git argv t s = (answer git argv t s, after_call git argv t s)"
  by (simp add: answer_def after_call_def)

lemma answer_eq: "answer git argv t s = fst (git (world s) argv t)"
  by (simp add: answer_def subprocess_run_eq)

lemma calls_after_call [simp]: "calls (after_call git argv t s) = calls s @ [(argv, t)]"
  by (simp add: after_call_def subprocess_run_eq)

lemma world_after_call: "world (after_call git argv t s) = snd (git (world s) argv t)"
  by (simp add: after_call_def subprocess_run_eq)

lemma get_repo_status_eq:
  "get_repo_status git path s =
     (case answer git (status_argv path) 5 s of
        Raised c e \<Rightarrow> None
      | Completed rc out err \<Rightarrow>
          if rc = 0 then Some (status_of_lines (status_lines out)) else None,
      after_call git (status_argv path) 5 s)"
  by (simp add: get_repo_status_def subprocess_run_split split: run_result.splits)

lemma get_current_branch_eq:
  "get_current_branch git path s =
     (case answer git (current_argv path) 2 s of
        Raised c e \<Rightarrow> None
      | Completed rc out err \<Rightarrow> if rc = 0 then Some (strip out) else None,
      after_call git (current_argv path) 2 s)"
  by (simp add: get_current_branch_def subprocess_run_split split: run_result.splits)

lemma get_remote_url_eq:
  "get_remote_url git path s =
     (case answer git (remote_url_argv path) 2 s of
        Raised c e \<Rightarrow> None
      | Completed rc out err \<Rightarrow> if rc = 0 then Some (strip out) else None,
      after_call git (remote_url_argv path) 2 s)"
  by (simp add: get_remote_url_def subprocess_run_split split: run_result.splits)

lemma has_upstream_branch_eq:
  "has_upstream_branch git path s =
     (case answer git (upstream_argv path) 2 s of
        Raised c e \<Rightarrow> False
      | Completed rc out err \<Rightarrow> rc = 0 \<and> strip out \<noteq> [],
      after_call git (upstream_argv path) 2 s)"
  by (simp add: has_upstream_branch_def subprocess_run_split split: run_result.splits)

lemma get_all_branches_eq:
  "get_all_branches git path s =
     (case answer git (branches_argv path) 5 s of
        Raised c e \<Rightarrow> []
      | Completed rc out err \<Rightarrow> if rc = 0 then branches_of_output out else [],
      after_call git (branches_argv path) 5 s)"
  by (simp add: get_all_branches_def subprocess_run_split split: run_result.splits)

lemma add_remote_eq:
  "add_remote git path name url s =
     (case answer git [''git'', ''-C'', path, ''remote'', ''add'', name, url] 5 s of
        Raised c e \<Rightarrow> (False, e)
      | Completed rc out err \<Rightarrow>
          if rc = 0 then (True, ''Remote added successfully'') else (False, err),
      after_call git [''git'', ''-C'', path, ''remote'', ''add'', name, url] 5 s)"
  by (simp add: add_remote_def subprocess_run_split split: run_result.splits)

lemma set_upstream_eq:
  "set_upstream git path remote_name branch_name s =
     (case answer git [''git'', ''-C'', path, ''branch'', ''--set-upstream-to'',
                       remote_name @ ''/'' @ branch_name] 5 s of
        Raised c e \<Rightarrow> (False, e)
      | Completed rc out err \<Rightarrow>
          if rc = 0 then (True, ''Upstream set successfully'') else (False, err),
      after_call git [''git'', ''-C'', path, ''branch'', ''--set-upstream-to'',
                      remote_name @ ''/'' @ branch_name] 5 s)"
  by (simp add: set_upstream_def subprocess_run_split split: run_result.splits)

lemma push_set_upstream_eq:
  "push_set_upstream git path remote_name branch_name s =
     (case answer git [''git'', ''-C'', path, ''push'', ''--set-upstream'', remote_name,
                       branch_name] 30 s of
        Raised c e \<Rightarrow> (False, e)
      | Completed rc out err \<Rightarrow>
          if rc = 0 then (True, ''Push successful and upstream set'') else (False, err),
      after_call git [''git'', ''-C'', path, ''push'', ''--set-upstream'', remote_name,
                      branch_name] 30 s)"
  by (simp add: push_set_upstream_def subprocess_run_split split: run_result.splits)

lemma commit_step_eq:
  "commit_step git path message s =
     (case answer git (commit_argv path message) 5 s of
        Raised c e \<Rightarrow> (False, e)
      | Completed rc out err \<Rightarrow> if rc = 0 then (True, ''Commit successful'') else (False, err),
      after_call git (commit_argv path message) 5 s)"
  by (simp add: commit_step_def subprocess_run_split split: run_result.splits)

lemma commit_changes_eq:
  "commit_changes git path message add_all s =
     (if add_all then
        (case answer git (stage_argv path) 5 s of
           Raised c e \<Rightarrow> ((False, e), after_call git (stage_argv path) 5 s)
         | Completed rc out err \<Rightarrow>
             if rc \<noteq> 0 then
               ((False, ''Failed to stage files: '' @ err), after_call git (stage_argv path) 5 s)
             else commit_step git path message (after_call git (stage_argv path) 5 s))
      else commit_step git path message s)"
  by (simp add: commit_changes_def subprocess_run_split split: run_result.splits)

lemma push_changes_eq:
  "push_changes git path s =
     (case answer git [''git'', ''-C'', path, ''push''] 30 s of
        Raised c e \<Rightarrow> (False, e)
      | Completed rc out err \<Rightarrow> if rc = 0 then (True, ''Push successful'') else (False, err),
      after_call git [''git'', ''-C'', path, ''push''] 30 s)"
  by (simp add: push_changes_def subprocess_run_split split: run_result.splits)

lemma pull_changes_eq:
  "pull_changes git path s =
     (case answer git [''git'', ''-C'', path, ''pull''] 30 s of
        Raised c e \<Rightarrow> (False, e)
      | Completed rc out err \<Rightarrow> if rc = 0 then (True, ''Pull successful'') else (False, err),
      after_call git [''git'', ''-C'', path, ''pull''] 30 s)"
  by (simp add: pull_changes_def subprocess_run_split split: run_result.splits)

lemma checkout_branch_eq:
  "checkout_branch git path branch_name s =
     (case answer git (checkout_argv path branch_name) 5 s of
        Raised c e \<Rightarrow> (False, e)
      | Completed rc out err \<Rightarrow>
          if rc = 0 then (True, ''Switched to branch '' @ [quote] @ branch_name @ [quote])
          else (False, err),
      after_call git (checkout_argv path branch_name) 5 s)"
  by (simp add: checkout_branch_def subprocess_run_split split: run_result.splits)

lemma create_branch_eq:
  "create_branch git path branch_name s =
     (case answer git [''git'', ''-C'', path, ''checkout'', ''-b'', branch_name] 5 s of
        Raised c e \<Rightarrow> (False, e)
      | Completed rc out err \<Rightarrow>
          if rc = 0 then
            (True, ''Created and switched to branch '' @ [quote] @ branch_name @ [quote])
          else (False, err),
      after_call git [''git'', ''-C'', path, ''checkout'', ''-b'', branch_name] 5 s)"
  by (simp add: create_branch_def subprocess_run_split split: run_result.splits)

lemma rename_step_eq:
  "rename_step git path old_name new_name s =
     (case answer git (rename_argv path new_name) 5 s of
        Raised c e \<Rightarrow> (False, e)
      | Completed rc out err \<Rightarrow>
          if rc = 0 then
            (True, ''Branch renamed from '' @ [quote] @ old_name @ [quote] @ '' to ''
                     @ [quote] @ new_name @ [quote])
          else (False, err),
      after_call git (rename_argv path new_name) 5 s)"
  by (simp add: rename_step_def subprocess_run_split split: run_result.splits)

lemma rename_branch_eq:
  "rename_branch git path old_name new_name s =
     (let s1 = after_call git (current_argv path) 2 s
      in if fst (get_current_branch git path s) \<noteq> Some old_name then
           (case answer git (checkout_argv path old_name) 5 s1 of
              Raised c e \<Rightarrow> ((False, e), after_call git (checkout_argv path old_name) 5 s1)
            | Completed rc out err \<Rightarrow>
                if rc \<noteq> 0 then
                  ((False, ''Failed to checkout branch: '' @ err),
                   after_call git (checkout_argv path old_name) 5 s1)
                else rename_step git path old_name new_name
                       (after_call git (checkout_argv path old_name) 5 s1))
         else rename_step git path old_name new_name s1)"
  by (simp add: rename_branch_def get_current_branch_eq subprocess_run_split Let_def
        split: run_result.splits)







lemma world_script: "world (script rs) = rs"
  by (simp add: script_def)

subsection \<open>Status snapshots\<close>

lemma clean_iff_blank:
  "clean (status_of_lines (status_lines out)) \<longleftrightarrow>
     (\<forall>l\<in>set (split_char newline out). \<forall>c\<in>set l. isspace c)"
proof -
  have a: "clean (status_of_lines (status_lines out)) \<longleftrightarrow> status_lines out = [[]]"
    by (cases "status_lines out") (auto simp: status_of_lines_def)
  have b: "status_lines out = [[]] \<longleftrightarrow> (\<forall>c\<in>set out. isspace c)"
    by (simp add: status_lines_def split_char_single_empty strip_empty_iff)
  have c: "(\<forall>l\<in>set (split_char newline out). \<forall>c\<in>set l. isspace c)
             \<longleftrightarrow> (\<forall>c\<in>set out. c \<noteq> newline \<longrightarrow> isspace c)"
    using all_split_char [of newline out isspace] .
  have d: "(\<forall>c\<in>set out. c \<noteq> newline \<longrightarrow> isspace c) \<longleftrightarrow> (\<forall>c\<in>set out. isspace c)"
  proof
    assume h: "\<forall>c\<in>set out. c \<noteq> newline \<longrightarrow> isspace c"
    show "\<forall>c\<in>set out. isspace c"
    proof
      fix c assume "c \<in> set out"
      with h have "c \<noteq> newline \<longrightarrow> isspace c" by (rule bspec)
      with isspace_newline show "isspace c" by (cases "c = newline") simp_all
    qed
  next
    assume "\<forall>c\<in>set out. isspace c"
    then show "\<forall>c\<in>set out. c \<noteq> newline \<longrightarrow> isspace c" by simp
  qed
  show ?thesis unfolding a b c d by (rule refl)
qed

lemma clean_counts_zero:
  assumes "clean (status_of_lines ls)"
  shows "modified (status_of_lines ls) = 0 \<and> added (status_of_lines ls) = 0
         \<and> deleted (status_of_lines ls) = 0"
proof -
  from assms have "ls = [[]]"
    by (cases ls) (auto simp: status_of_lines_def)
  then show ?thesis
    by (simp add: status_of_lines_def is_modified_def is_added_def is_deleted_def)
qed

lemma get_repo_status_Completed:
  assumes "answer git (status_argv path) 5 s = Completed rc out err"
  shows "fst (get_repo_status git path s)
           = (if rc = 0 then Some (status_of_lines (status_lines out)) else None)"
  using assms by (simp add: get_repo_status_eq)

lemma startswith_two: "startswith l [a, b] \<longleftrightarrow> (\<exists>r. l = a # b # r)"
  by (cases l; cases "tl l") (auto simp: startswith_def)

lemma one_counter_per_line:
  "(if is_modified l then 1 else 0) + (if is_added l then 1 else 0)
     + (if is_deleted l then 1 else 0) \<le> (if l = [] then 0 else (1::nat))"
  unfolding is_modified_def is_added_def is_deleted_def startswith_two
  by auto

lemma counts_le_nonempty:
  "length (filter is_modified ls) + length (filter is_added ls) + length (filter is_deleted ls)
     \<le> length (filter (\<lambda>l. l \<noteq> []) ls)"
proof (induction ls)
  case Nil
  show ?case by simp
next
  case (Cons l ls)
  have "length (filter is_modified (l # ls)) + length (filter is_added (l # ls))
          + length (filter is_deleted (l # ls))
        = ((if is_modified l then 1 else 0) + (if is_added l then 1 else 0)
            + (if is_deleted l then 1 else 0))
          + (length (filter is_modified ls) + length (filter is_added ls)
              + length (filter is_deleted ls))"
    by simp
  moreover have "length (filter (\<lambda>l. l \<noteq> []) (l # ls))
        = (if l = [] then 0 else 1) + length (filter (\<lambda>l. l \<noteq> []) ls)"
    by simp
  ultimately show ?case
    using one_counter_per_line [of l] Cons.IH by linarith
qed

text \<open>
  Claim C2. Whenever the status command exits with code 0, \<^verbatim>\<open>get_repo_status\<close> returns a
  snapshot, and its \<open>clean\<close> flag holds exactly when the three counts are zero and the
  output reports no status line, that is, every line of the output is blank. In particular
  the empty output and the output that is one empty line give the clean snapshot with all
  counts zero.
\<close>

theorem repo_status_clean_iff:
  assumes "answer git (status_argv path) 5 s = Completed 0 out err"
  shows "\<exists>st. fst (get_repo_status git path s) = Some st
           \<and> (clean st \<longleftrightarrow>
                modified st = 0 \<and> added st = 0 \<and> deleted st = 0
                \<and> (\<forall>l\<in>set (split_char newline out). \<forall>c\<in>set l. isspace c))
           \<and> (out = [] \<or> out = [newline] \<longrightarrow>
                st = \<lparr>modified = 0, added = 0, deleted = 0, clean = True\<rparr>)"
proof -
  let ?st = "status_of_lines (status_lines out)"
  have res: "fst (get_repo_status git path s) = Some ?st"
    using assms by (simp add: get_repo_status_Completed)
  have iff: "clean ?st \<longleftrightarrow>
      modified ?st = 0 \<and> added ?st = 0 \<and> deleted ?st = 0
      \<and> (\<forall>l\<in>set (split_char newline out). \<forall>c\<in>set l. isspace c)"
    using clean_iff_blank [of out] clean_counts_zero [of "status_lines out"] by blast
  have one: "out = [] \<or> out = [newline] \<longrightarrow>
      ?st = \<lparr>modified = 0, added = 0, deleted = 0, clean = True\<rparr>"
  proof
    assume "out = [] \<or> out = [newline]"
    then have "status_lines out = [[]]"
      by (auto simp: status_lines_def strip_def rstrip_def lstrip_def isspace_newline)
    then show "?st = \<lparr>modified = 0, added = 0, deleted = 0, clean = True\<rparr>"
      by (simp add: status_of_lines_def is_modified_def is_added_def is_deleted_def)
  qed
  from res iff one show ?thesis by blast
qed

theorem repo_status_clean_iff_witness:
  "answer scripted (status_argv ''/repo'') 5 (script [Completed 0 ''\<newline>'' ''''])
     = Completed 0 ''\<newline>'' ''''
   \<and> fst (get_repo_status scripted ''/repo'' (script [Completed 0 ''\<newline>'' '''']))
       = Some \<lparr>modified = 0, added = 0, deleted = 0, clean = True\<rparr>"
proof -
  have h: "answer scripted (status_argv ''/repo'') 5 (script [Completed 0 ''\<newline>'' ''''])
             = Completed 0 ''\<newline>'' ''''"
    by (simp add: answer_eq world_script)
  from repo_status_clean_iff [of scripted "''/repo''" "script [Completed 0 ''\<newline>'' '''']"
         "''\<newline>''" "''''", OF h]
  have "fst (get_repo_status scripted ''/repo'' (script [Completed 0 ''\<newline>'' '''']))
       = Some \<lparr>modified = 0, added = 0, deleted = 0, clean = True\<rparr>"
    by auto
  with h show ?thesis by (rule conjI)
qed

text \<open>
  Claim C10. No line begins with two different prefixes among the six recognised ones, so a
  line adds to at most one of the three counters; in every snapshot the sum of the three
  counts is at most the number of non-empty lines that were parsed, which is at most the
  number of parsed lines, which is at most the number of lines of the tool's output.
\<close>

theorem repo_status_counts_bounded:
  assumes "answer git (status_argv path) 5 s = Completed 0 out err"
  shows "(\<forall>p\<in>set ['' M'', ''M '', ''A '', ''??'', '' D'', ''D ''].
          \<forall>q\<in>set ['' M'', ''M '', ''A '', ''??'', '' D'', ''D ''].
            startswith line p \<and> startswith line q \<longrightarrow> p = q)
         \<and> (if is_modified line then 1 else 0) + (if is_added line then 1 else 0)
              + (if is_deleted line then 1 else 0) \<le> (1::nat)
         \<and> (\<exists>st. fst (get_repo_status git path s) = Some st
              \<and> modified st + added st + deleted st
                    \<le> length (filter (\<lambda>l. l \<noteq> []) (status_lines out))
              \<and> length (filter (\<lambda>l. l \<noteq> []) (status_lines out)) \<le> length (status_lines out)
              \<and> length (status_lines out) \<le> length (split_char newline out))"
proof -
  have excl: "\<forall>p\<in>set ['' M'', ''M '', ''A '', ''??'', '' D'', ''D ''].
          \<forall>q\<in>set ['' M'', ''M '', ''A '', ''??'', '' D'', ''D ''].
            startswith line p \<and> startswith line q \<longrightarrow> p = q"
  proof (intro ballI impI)
    fix p q
    assume p: "p \<in> set ['' M'', ''M '', ''A '', ''??'', '' D'', ''D '']"
      and q: "q \<in> set ['' M'', ''M '', ''A '', ''??'', '' D'', ''D '']"
      and pq: "startswith line p \<and> startswith line q"
    from p have "length p = 2" by auto
    moreover from q have "length q = 2" by auto
    ultimately show "p = q" using pq by (auto simp: startswith_def)
  qed
  have one: "(if is_modified line then 1 else 0) + (if is_added line then 1 else 0)
              + (if is_deleted line then 1 else 0) \<le> (1::nat)"
    using one_counter_per_line [of line] by (simp split: if_splits)
  let ?st = "status_of_lines (status_lines out)"
  have res: "fst (get_repo_status git path s) = Some ?st"
    using assms by (simp add: get_repo_status_Completed)
  have b1: "modified ?st + added ?st + deleted ?st
              \<le> length (filter (\<lambda>l. l \<noteq> []) (status_lines out))"
    using counts_le_nonempty [of "status_lines out"] by (simp add: status_of_lines_def)
  have b2: "length (status_lines out) \<le> length (split_char newline out)"
    by (simp add: status_lines_def length_split_char filter_strip_le)
  have b0: "length (filter (\<lambda>l. l \<noteq> []) (status_lines out)) \<le> length (status_lines out)"
    by simp
  from res b1 b0 b2 have ex: "\<exists>st. fst (get_repo_status git path s) = Some st
              \<and> modified st + added st + deleted st
                    \<le> length (filter (\<lambda>l. l \<noteq> []) (status_lines out))
              \<and> length (filter (\<lambda>l. l \<noteq> []) (status_lines out)) \<le> length (status_lines out)
              \<and> length (status_lines out) \<le> length (split_char newline out)"
    by blast
  show ?thesis
    by (intro conjI) (rule excl, rule one, rule ex)
qed

theorem repo_status_counts_bounded_witness:
  "answer scripted (status_argv ''/repo'') 5 (script [Completed 0 ''M  a.py\<newline>?? b.py\<newline>MM c.py\<newline> D d.py\<newline>'' ''''])
     = Completed 0 ''M  a.py\<newline>?? b.py\<newline>MM c.py\<newline> D d.py\<newline>'' ''''
   \<and> (\<exists>st. fst (get_repo_status scripted ''/repo''
                  (script [Completed 0 ''M  a.py\<newline>?? b.py\<newline>MM c.py\<newline> D d.py\<newline>'' '''']))
              = Some st
            \<and> modified st + added st + deleted st
                 \<le> length (filter (\<lambda>l. l \<noteq> [])
                      (status_lines ''M  a.py\<newline>?? b.py\<newline>MM c.py\<newline> D d.py\<newline>''))
            \<and> length (filter (\<lambda>l. l \<noteq> [])
                      (status_lines ''M  a.py\<newline>?? b.py\<newline>MM c.py\<newline> D d.py\<newline>''))
                 \<le> length (status_lines ''M  a.py\<newline>?? b.py\<newline>MM c.py\<newline> D d.py\<newline>'')
            \<and> length (status_lines ''M  a.py\<newline>?? b.py\<newline>MM c.py\<newline> D d.py\<newline>'')
                 \<le> length (split_char newline ''M  a.py\<newline>?? b.py\<newline>MM c.py\<newline> D d.py\<newline>''))"
proof -
  let ?out = "''M  a.py\<newline>?? b.py\<newline>MM c.py\<newline> D d.py\<newline>''"
  have h: "answer scripted (status_argv ''/repo'') 5 (script [Completed 0 ?out ''''])
             = Completed 0 ?out ''''"
    by (simp add: answer_eq world_script)
  note repo_status_counts_bounded [of scripted "''/repo''" "script [Completed 0 ?out '''']"
         ?out "''''" "'' D d.py''", OF h, THEN conjunct2, THEN conjunct2]
  with h show ?thesis by (rule conjI)
qed

text \<open>
  Claim C1, on the code. \<^verbatim>\<open>get_repo_status\<close> strips the whole output before it splits it
  into lines, so the first line reaches the prefix tests without its leading blank. The
  status line \<^verbatim>\<open>" A new.txt"\<close> (a file added with intent to add) does not begin with a
  prefix of the added category; as the first line of the output it is parsed as
  \<^verbatim>\<open>"A new.txt"\<close> and counted as added, as any later line it is not counted.
\<close>

theorem repo_status_first_line_miscounted:
  "\<not> is_added '' A new.txt''
   \<and> fst (get_repo_status scripted ''/repo'' (script [Completed 0 '' A new.txt\<newline>'' '''']))
        = Some \<lparr>modified = 0, added = 1, deleted = 0, clean = False\<rparr>
   \<and> fst (get_repo_status scripted ''/repo''
             (script [Completed 0 ''M  old.txt\<newline> A new.txt\<newline>'' '''']))
        = Some \<lparr>modified = 1, added = 0, deleted = 0, clean = False\<rparr>"
  by (simp add: get_repo_status_eq answer_eq script_def status_lines_def status_of_lines_def
        strip_def lstrip_def rstrip_def isspace_def is_added_def is_modified_def is_deleted_def
        startswith_def)

subsection \<open>Timeouts\<close>




lemma timeouts_after_call [simp]: "timeouts_used s (after_call git argv t s) = {t}"
  by (simp add: timeouts_used_def new_calls_def)















subsection \<open>Failures of the tool\<close>

lemma failed_get_repo_status:
  "failed (answer git (status_argv path) 5 s) \<longrightarrow> fst (get_repo_status git path s) = None"
  by (simp add: failed_def failure_text_def get_repo_status_eq split: run_result.splits)

lemma failed_get_current_branch:
  "failed (answer git (current_argv path) 2 s) \<longrightarrow> fst (get_current_branch git path s) = None"
  by (simp add: failed_def failure_text_def get_current_branch_eq split: run_result.splits)

lemma failed_get_remote_url:
  "failed (answer git (remote_url_argv path) 2 s) \<longrightarrow> fst (get_remote_url git path s) = None"
  by (simp add: failed_def failure_text_def get_remote_url_eq split: run_result.splits)

lemma failed_has_upstream_branch:
  "failed (answer git (upstream_argv path) 2 s) \<longrightarrow> fst (has_upstream_branch git path s) = False"
  by (simp add: failed_def failure_text_def has_upstream_branch_eq split: run_result.splits)

lemma failed_get_all_branches:
  "failed (answer git (branches_argv path) 5 s) \<longrightarrow> fst (get_all_branches git path s) = []"
  by (simp add: failed_def failure_text_def get_all_branches_eq split: run_result.splits)









subsection \<open>Committing\<close>

text \<open>
  Claim C7, as the code has it. With \<^verbatim>\<open>add_all\<close> set, the staging call is the first call.
  If it raises, the method returns \<open>False\<close> with the exception's text, and if it exits with
  a non-zero code, \<open>False\<close> with the standard error after the label
  \<^verbatim>\<open>Failed to stage files: \<close>; in both cases no commit call is made. Only after staging
  exited with code 0 is the commit call made; when that one fails, the method returns
  \<open>False\<close> with the exception's text or the standard error as it is, without a label.
\<close>

theorem commit_stages_before_committing:
  "let staging = answer git (stage_argv path) 5 s;
       s1 = after_call git (stage_argv path) 5 s;
       committing = answer git (commit_argv path message) 5 s1;
       r = fst (commit_changes git path message True s);
       cs = new_calls s (snd (commit_changes git path message True s))
   in (case staging of
         Raised c e \<Rightarrow> r = (False, e) \<and> cs = [(stage_argv path, 5)]
       | Completed rc out err \<Rightarrow>
           if rc \<noteq> 0 then
             r = (False, ''Failed to stage files: '' @ err) \<and> cs = [(stage_argv path, 5)]
           else
             cs = [(stage_argv path, 5), (commit_argv path message, 5)]
             \<and> (case committing of
                   Raised c e \<Rightarrow> r = (False, e)
                 | Completed rc2 out2 err2 \<Rightarrow>
                     if rc2 = 0 then r = (True, ''Commit successful'') else r = (False, err2)))"
  by (simp add: Let_def new_calls_def commit_changes_eq commit_step_eq
        split: run_result.splits)

text \<open>
  Claim C7 as stated fails: the message of a staging failure need not differ from the
  message of a commit-step failure. The label is the only difference, and the commit's own
  standard error may carry it; and when the call itself raises, the message is the
  exception's text at either step.
\<close>

theorem commit_failure_messages_coincide:
  "fst (commit_changes scripted ''/repo'' ''msg'' True
          (script [Completed 1 [] ''index.lock exists'']))
     = fst (commit_changes scripted ''/repo'' ''msg'' True
          (script [Completed 0 [] [], Completed 1 [] ''Failed to stage files: index.lock exists'']))
   \<and> fst (commit_changes scripted ''/repo'' ''msg'' True
          (script [Raised OSError ''[Errno 12] Cannot allocate memory'']))
     = fst (commit_changes scripted ''/repo'' ''msg'' True
          (script [Completed 0 [] [], Raised OSError ''[Errno 12] Cannot allocate memory'']))"
  by (simp add: commit_changes_eq commit_step_eq answer_eq world_after_call script_def)

subsection \<open>Renaming a branch\<close>








subsection \<open>The branch list\<close>
















subsection \<open>Exceptions in the Mutation Operations\<close>

lemma raised_add_remote:
  "answer git [''git'', ''-C'', path, ''remote'', ''add'', name, url] 5 s = Raised c e \<longrightarrow>
     fst (add_remote git path name url s) = (False, e)"
  by (simp add: add_remote_eq)

lemma raised_set_upstream:
  "answer git [''git'', ''-C'', path, ''branch'', ''--set-upstream-to'',
               remote_name @ ''/'' @ branch_name] 5 s = Raised c e \<longrightarrow>
     fst (set_upstream git path remote_name branch_name s) = (False, e)"
  by (simp add: set_upstream_eq)

lemma raised_push_set_upstream:
  "answer git [''git'', ''-C'', path, ''push'', ''--set-upstream'', remote_name, branch_name]
          30 s = Raised c e \<longrightarrow>
     fst (push_set_upstream git path remote_name branch_name s) = (False, e)"
  by (simp add: push_set_upstream_eq)

lemma raised_push_changes:
  "answer git [''git'', ''-C'', path, ''push''] 30 s = Raised c e \<longrightarrow>
     fst (push_changes git path s) = (False, e)"
  by (simp add: push_changes_eq)

lemma raised_pull_changes:
  "answer git [''git'', ''-C'', path, ''pull''] 30 s = Raised c e \<longrightarrow>
     fst (pull_changes git path s) = (False, e)"
  by (simp add: pull_changes_eq)

lemma raised_checkout_branch:
  "answer git (checkout_argv path branch_name) 5 s = Raised c e \<longrightarrow>
     fst (checkout_branch git path branch_name s) = (False, e)"
  by (simp add: checkout_branch_eq)

lemma raised_create_branch:
  "answer git [''git'', ''-C'', path, ''checkout'', ''-b'', branch_name] 5 s = Raised c e \<longrightarrow>
     fst (create_branch git path branch_name s) = (False, e)"
  by (simp add: create_branch_eq)

lemma raised_commit_staging:
  "answer git (stage_argv path) 5 s = Raised c e \<longrightarrow>
     fst (commit_changes git path message True s) = (False, e)"
  by (simp add: commit_changes_eq)

lemma raised_commit_after_staging:
  "answer git (stage_argv path) 5 s = Completed 0 out err
   \<and> answer git (commit_argv path message) 5 (after_call git (stage_argv path) 5 s) = Raised c e
   \<longrightarrow> fst (commit_changes git path message True s) = (False, e)"
  by (simp add: commit_changes_eq commit_step_eq)

lemma raised_commit_unstaged:
  "answer git (commit_argv path message) 5 s = Raised c e \<longrightarrow>
     fst (commit_changes git path message False s) = (False, e)"
  by (simp add: commit_changes_eq commit_step_eq)

lemma raised_rename_checkout:
  "fst (get_current_branch git path s) \<noteq> Some old_name
   \<and> answer git (checkout_argv path old_name) 5 (after_call git (current_argv path) 2 s)
       = Raised c e
   \<longrightarrow> fst (rename_branch git path old_name new_name s) = (False, e)"
  by (simp add: rename_branch_eq Let_def)

lemma raised_rename_after_checkout:
  "fst (get_current_branch git path s) \<noteq> Some old_name
   \<and> answer git (checkout_argv path old_name) 5 (after_call git (current_argv path) 2 s)
       = Completed 0 out err
   \<and> answer git (rename_argv path new_name) 5
        (after_call git (checkout_argv path old_name) 5 (after_call git (current_argv path) 2 s))
       = Raised c e
   \<longrightarrow> fst (rename_branch git path old_name new_name s) = (False, e)"
  by (simp add: rename_branch_eq rename_step_eq Let_def)

lemma raised_rename_current:
  "fst (get_current_branch git path s) = Some old_name
   \<and> answer git (rename_argv path new_name) 5 (after_call git (current_argv path) 2 s)
       = Raised c e
   \<longrightarrow> fst (rename_branch git path old_name new_name s) = (False, e)"
  by (simp add: rename_branch_eq rename_step_eq Let_def)

lemma raised_rename_query:
  "answer git (current_argv path) 2 s = Raised c e \<longrightarrow>
     fst (get_current_branch git path s) = None"
  by (simp add: get_current_branch_eq)

text \<open>
  Claim C9, as the code has it. Every Mutation Operation returns a pair for every input:
  each call it makes itself has a branch for the exception, which returns \<open>False\<close> with the
  exception's text. That holds for the single call of \<^verbatim>\<open>add_remote\<close>, \<^verbatim>\<open>set_upstream\<close>,
  \<^verbatim>\<open>push_set_upstream\<close>, \<^verbatim>\<open>push_changes\<close>, \<^verbatim>\<open>pull_changes\<close>, \<^verbatim>\<open>checkout_branch\<close> and
  \<^verbatim>\<open>create_branch\<close>, for the staging call and the commit call of \<^verbatim>\<open>commit_changes\<close>, and
  for the checkout call and the rename call of \<^verbatim>\<open>rename_branch\<close>. The query of the
  current branch inside \<^verbatim>\<open>rename_branch\<close> is different: an exception in it is caught by
  the query, which answers \<open>None\<close>, and \<^verbatim>\<open>rename_branch\<close> goes on to the checkout.
\<close>

theorem mutation_exceptions_returned:
  "(answer git [''git'', ''-C'', path, ''remote'', ''add'', name, url] 5 s = Raised c e \<longrightarrow>
     fst (add_remote git path name url s) = (False, e))
   \<and> (answer git [''git'', ''-C'', path, ''branch'', ''--set-upstream-to'',
               remote_name @ ''/'' @ branch_name] 5 s = Raised c e \<longrightarrow>
     fst (set_upstream git path remote_name branch_name s) = (False, e))
   \<and> (answer git [''git'', ''-C'', path, ''push'', ''--set-upstream'', remote_name, branch_name]
          30 s = Raised c e \<longrightarrow>
     fst (push_set_upstream git path remote_name branch_name s) = (False, e))
   \<and> (answer git [''git'', ''-C'', path, ''push''] 30 s = Raised c e \<longrightarrow>
     fst (push_changes git path s) = (False, e))
   \<and> (answer git [''git'', ''-C'', path, ''pull''] 30 s = Raised c e \<longrightarrow>
     fst (pull_changes git path s) = (False, e))
   \<and> (answer git (checkout_argv path branch_name) 5 s = Raised c e \<longrightarrow>
     fst (checkout_branch git path branch_name s) = (False, e))
   \<and> (answer git [''git'', ''-C'', path, ''checkout'', ''-b'', branch_name] 5 s = Raised c e \<longrightarrow>
     fst (create_branch git path branch_name s) = (False, e))
   \<and> (answer git (stage_argv path) 5 s = Raised c e \<longrightarrow>
     fst (commit_changes git path message True s) = (False, e))
   \<and> (answer git (stage_argv path) 5 s = Completed 0 out err
       \<and> answer git (commit_argv path message) 5 (after_call git (stage_argv path) 5 s)
           = Raised c e
       \<longrightarrow> fst (commit_changes git path message True s) = (False, e))
   \<and> (answer git (commit_argv path message) 5 s = Raised c e \<longrightarrow>
     fst (commit_changes git path message False s) = (False, e))
   \<and> (fst (get_current_branch git path s) \<noteq> Some old_name
       \<and> answer git (checkout_argv path old_name) 5 (after_call git (current_argv path) 2 s)
           = Raised c e
       \<longrightarrow> fst (rename_branch git path old_name new_name s) = (False, e))
   \<and> (fst (get_current_branch git path s) \<noteq> Some old_name
       \<and> answer git (checkout_argv path old_name) 5 (after_call git (current_argv path) 2 s)
           = Completed 0 out err
       \<and> answer git (rename_argv path new_name) 5
            (after_call git (checkout_argv path old_name) 5
              (after_call git (current_argv path) 2 s))
           = Raised c e
       \<longrightarrow> fst (rename_branch git path old_name new_name s) = (False, e))
   \<and> (fst (get_current_branch git path s) = Some old_name
       \<and> answer git (rename_argv path new_name) 5 (after_call git (current_argv path) 2 s)
           = Raised c e
       \<longrightarrow> fst (rename_branch git path old_name new_name s) = (False, e))
   \<and> (answer git (current_argv path) 2 s = Raised c e \<longrightarrow>
     fst (get_current_branch git path s) = None)"
  by (intro conjI)
     (rule raised_add_remote, rule raised_set_upstream, rule raised_push_set_upstream,
      rule raised_push_changes, rule raised_pull_changes, rule raised_checkout_branch,
      rule raised_create_branch, rule raised_commit_staging, rule raised_commit_after_staging,
      rule raised_commit_unstaged, rule raised_rename_checkout,
      rule raised_rename_after_checkout, rule raised_rename_current, rule raised_rename_query)

theorem mutation_exceptions_returned_witness:
  "answer scripted (stage_argv ''/repo'') 5 (script [Raised OSError ''boom''])
     = Raised OSError ''boom''
   \<and> fst (add_remote scripted ''/repo'' ''origin'' ''url'' (script [Raised OSError ''boom'']))
       = (False, ''boom'')
   \<and> fst (set_upstream scripted ''/repo'' ''origin'' ''main'' (script [Raised OSError ''boom'']))
       = (False, ''boom'')
   \<and> fst (push_set_upstream scripted ''/repo'' ''origin'' ''main''
            (script [Raised OSError ''boom'']))
       = (False, ''boom'')
   \<and> fst (push_changes scripted ''/repo'' (script [Raised OSError ''boom''])) = (False, ''boom'')
   \<and> fst (pull_changes scripted ''/repo'' (script [Raised OSError ''boom''])) = (False, ''boom'')
   \<and> fst (checkout_branch scripted ''/repo'' ''main'' (script [Raised OSError ''boom'']))
       = (False, ''boom'')
   \<and> fst (create_branch scripted ''/repo'' ''main'' (script [Raised OSError ''boom'']))
       = (False, ''boom'')
   \<and> fst (commit_changes scripted ''/repo'' ''msg'' True (script [Raised OSError ''boom'']))
       = (False, ''boom'')
   \<and> fst (commit_changes scripted ''/repo'' ''msg'' False (script [Raised OSError ''boom'']))
       = (False, ''boom'')
   \<and> fst (get_current_branch scripted ''/repo'' (script [Raised OSError ''boom''])) = None
   \<and> fst (commit_changes scripted ''/repo'' ''msg'' True
            (script [Completed 0 [] [], Raised OSError ''boom'']))
       = (False, ''boom'')
   \<and> fst (rename_branch scripted ''/repo'' ''dev'' ''trunk''
            (script [Completed 0 ''main\<newline>'' [], Raised OSError ''boom'']))
       = (False, ''boom'')
   \<and> fst (rename_branch scripted ''/repo'' ''dev'' ''trunk''
            (script [Completed 0 ''main\<newline>'' [], Completed 0 [] [], Raised OSError ''boom'']))
       = (False, ''boom'')
   \<and> fst (rename_branch scripted ''/repo'' ''dev'' ''trunk''
            (script [Completed 0 ''dev\<newline>'' [], Raised OSError ''boom'']))
       = (False, ''boom'')"
proof -
  have ev: "strip ''main\<newline>'' = ''main''" "strip ''dev\<newline>'' = ''dev''"
    by (simp_all add: strip_def lstrip_def rstrip_def isspace_def)
  note A = mutation_exceptions_returned
             [where git = scripted and path = "''/repo''" and name = "''origin''"
                and url = "''url''" and remote_name = "''origin''" and branch_name = "''main''"
                and message = "''msg''" and c = OSError and e = "''boom''"
                and old_name = "''dev''" and new_name = "''trunk''"
                and out = "[]" and err = "[]"]
  have a: "answer scripted (stage_argv ''/repo'') 5 (script [Raised OSError ''boom''])
             = Raised OSError ''boom''"
    by (simp add: answer_eq world_script)
  from A [where s = "script [Raised OSError ''boom'']"]
  have one: "fst (add_remote scripted ''/repo'' ''origin'' ''url'' (script [Raised OSError ''boom'']))
       = (False, ''boom'')
   \<and> fst (set_upstream scripted ''/repo'' ''origin'' ''main'' (script [Raised OSError ''boom'']))
       = (False, ''boom'')
   \<and> fst (push_set_upstream scripted ''/repo'' ''origin'' ''main''
            (script [Raised OSError ''boom'']))
       = (False, ''boom'')
   \<and> fst (push_changes scripted ''/repo'' (script [Raised OSError ''boom''])) = (False, ''boom'')
   \<and> fst (pull_changes scripted ''/repo'' (script [Raised OSError ''boom''])) = (False, ''boom'')
   \<and> fst (checkout_branch scripted ''/repo'' ''main'' (script [Raised OSError ''boom'']))
       = (False, ''boom'')
   \<and> fst (create_branch scripted ''/repo'' ''main'' (script [Raised OSError ''boom'']))
       = (False, ''boom'')
   \<and> fst (commit_changes scripted ''/repo'' ''msg'' True (script [Raised OSError ''boom'']))
       = (False, ''boom'')
   \<and> fst (commit_changes scripted ''/repo'' ''msg'' False (script [Raised OSError ''boom'']))
       = (False, ''boom'')
   \<and> fst (get_current_branch scripted ''/repo'' (script [Raised OSError ''boom''])) = None"
    by (simp add: answer_eq world_script)
  from A [where s = "script [Completed 0 [] [], Raised OSError ''boom'']"]
  have two: "fst (commit_changes scripted ''/repo'' ''msg'' True
            (script [Completed 0 [] [], Raised OSError ''boom'']))
       = (False, ''boom'')"
    by (simp add: answer_eq world_after_call world_script)
  have cur_main: "fst (get_current_branch scripted ''/repo''
                    (script [Completed 0 ''main\<newline>'' [], Raised OSError ''boom'']))
                  = Some ''main''"
    "fst (get_current_branch scripted ''/repo''
        (script [Completed 0 ''main\<newline>'' [], Completed 0 [] [], Raised OSError ''boom'']))
      = Some ''main''"
    "fst (get_current_branch scripted ''/repo''
        (script [Completed 0 ''dev\<newline>'' [], Raised OSError ''boom'']))
      = Some ''dev''"
    by (simp_all add: get_current_branch_eq answer_eq world_script ev)
  from A [where s = "script [Completed 0 ''main\<newline>'' [], Raised OSError ''boom'']"]
  have three: "fst (rename_branch scripted ''/repo'' ''dev'' ''trunk''
            (script [Completed 0 ''main\<newline>'' [], Raised OSError ''boom'']))
       = (False, ''boom'')"
    by (simp add: answer_eq world_after_call world_script cur_main)
  from A [where s = "script [Completed 0 ''main\<newline>'' [], Completed 0 [] [],
                             Raised OSError ''boom'']"]
  have four: "fst (rename_branch scripted ''/repo'' ''dev'' ''trunk''
            (script [Completed 0 ''main\<newline>'' [], Completed 0 [] [], Raised OSError ''boom'']))
       = (False, ''boom'')"
    by (simp add: answer_eq world_after_call world_script cur_main)
  from A [where s = "script [Completed 0 ''dev\<newline>'' [], Raised OSError ''boom'']"]
  have five: "fst (rename_branch scripted ''/repo'' ''dev'' ''trunk''
            (script [Completed 0 ''dev\<newline>'' [], Raised OSError ''boom'']))
       = (False, ''boom'')"
    by (simp add: answer_eq world_after_call world_script cur_main)
  from a one two three four five show ?thesis by blast
qed

text \<open>
  Claim C9 as stated fails for the first call of \<^verbatim>\<open>rename_branch\<close>: when the query of the
  current branch runs into its timeout and the two later calls succeed, the method reports
  success, not \<open>False\<close> with the exception's text.
\<close>

theorem rename_succeeds_after_query_timeout:
  "answer scripted (current_argv ''/repo'') 2
     (script [Raised TimeoutExpired ''timed out after 2 seconds'', Completed 0 [] [],
              Completed 0 [] []])
     = Raised TimeoutExpired ''timed out after 2 seconds''
   \<and> fst (fst (rename_branch scripted ''/repo'' ''dev'' ''trunk''
        (script [Raised TimeoutExpired ''timed out after 2 seconds'', Completed 0 [] [],
                 Completed 0 [] []])))"
  by (simp add: rename_branch_eq rename_step_eq get_current_branch_eq answer_eq
        world_after_call script_def Let_def)

subsection \<open>Paths without a repository marker\<close>

lemma path_join_marker:
  "path \<noteq> [] \<Longrightarrow> last path \<noteq> CHR ''/'' \<Longrightarrow> path_join path ''.git'' = path @ ''/.git''"
  by (simp add: path_join_def startswith_def)

text \<open>
  Claim C8, as the code has it. \<^verbatim>\<open>is_git_repo\<close> is false for every path whose \<^verbatim>\<open>.git\<close>
  entry is not a directory; that covers a path that does not exist, since a directory
  inside it cannot exist then. The queries of the Inspector never raise, and each returns
  its absent value (\<open>None\<close>, \<open>False\<close>, the empty list) whenever the tool raises or exits
  with a non-zero code, as \<^verbatim>\<open>git\<close> does for a path outside every work tree. The queries
  do not look at the marker themselves.
\<close>

theorem unmarked_path_is_no_repository:
  "(\<not> isdir (path_join path ''.git'') \<longrightarrow> \<not> is_git_repo isdir path)
   \<and> ((isdir (path_join path ''.git'') \<longrightarrow> isdir path) \<and> \<not> isdir path \<longrightarrow>
         \<not> is_git_repo isdir path)
   \<and> (path \<noteq> [] \<and> last path \<noteq> CHR ''/'' \<longrightarrow> path_join path ''.git'' = path @ ''/.git'')
   \<and> (failed (answer git (status_argv path) 5 s) \<longrightarrow> fst (get_repo_status git path s) = None)
   \<and> (failed (answer git (current_argv path) 2 s) \<longrightarrow>
         fst (get_current_branch git path s) = None)
   \<and> (failed (answer git (remote_url_argv path) 2 s) \<longrightarrow>
         fst (get_remote_url git path s) = None)
   \<and> (failed (answer git (upstream_argv path) 2 s) \<longrightarrow>
         fst (has_upstream_branch git path s) = False)
   \<and> (failed (answer git (branches_argv path) 5 s) \<longrightarrow>
         fst (get_all_branches git path s) = [])"
proof -
  have a: "\<not> isdir (path_join path ''.git'') \<longrightarrow> \<not> is_git_repo isdir path"
    by (simp add: is_git_repo_def)
  have b: "(isdir (path_join path ''.git'') \<longrightarrow> isdir path) \<and> \<not> isdir path \<longrightarrow>
         \<not> is_git_repo isdir path"
    by (auto simp: is_git_repo_def)
  have c: "path \<noteq> [] \<and> last path \<noteq> CHR ''/'' \<longrightarrow> path_join path ''.git'' = path @ ''/.git''"
    using path_join_marker by blast
  show ?thesis
    by (intro conjI)
       (rule a, rule b, rule c, rule failed_get_repo_status, rule failed_get_current_branch,
        rule failed_get_remote_url, rule failed_has_upstream_branch,
        rule failed_get_all_branches)
qed

theorem unmarked_path_is_no_repository_witness:
  "\<not> (\<lambda>p. p \<in> set [''/home'', ''/home/u'']) (path_join ''/home/u/gone'' ''.git'')
   \<and> \<not> (\<lambda>p. p \<in> set [''/home'', ''/home/u'']) ''/home/u/gone''
   \<and> failed (answer scripted (status_argv ''/home/u/gone'') 5
        (script [Completed 128 [] ''fatal: cannot change to /home/u/gone'']))
   \<and> \<not> is_git_repo (\<lambda>p. p \<in> set [''/home'', ''/home/u'']) ''/home/u/gone''
   \<and> path_join ''/home/u/gone'' ''.git'' = ''/home/u/gone/.git''
   \<and> fst (get_repo_status scripted ''/home/u/gone''
        (script [Completed 128 [] ''fatal: cannot change to /home/u/gone''])) = None
   \<and> fst (get_current_branch scripted ''/home/u/gone''
        (script [Completed 128 [] ''fatal: cannot change to /home/u/gone''])) = None
   \<and> fst (get_remote_url scripted ''/home/u/gone''
        (script [Completed 128 [] ''fatal: cannot change to /home/u/gone''])) = None
   \<and> fst (has_upstream_branch scripted ''/home/u/gone''
        (script [Completed 128 [] ''fatal: cannot change to /home/u/gone''])) = False
   \<and> fst (get_all_branches scripted ''/home/u/gone''
        (script [Completed 128 [] ''fatal: cannot change to /home/u/gone''])) = []"
  using unmarked_path_is_no_repository
          [of "\<lambda>p. p \<in> set [''/home'', ''/home/u'']" "''/home/u/gone''" scripted
              "script [Completed 128 [] ''fatal: cannot change to /home/u/gone'']"]
  by (simp add: failed_def answer_eq script_def path_join_def startswith_def)

text \<open>
  Claim C8 as stated fails: for a directory without a marker inside the work tree of a
  repository, the tool exits with code 0 and \<^verbatim>\<open>get_repo_status\<close> returns a snapshot.
\<close>

theorem unmarked_subdirectory_has_status:
  "\<not> is_git_repo (\<lambda>p. p \<in> set [''/repo'', ''/repo/.git'', ''/repo/src'']) ''/repo/src''
   \<and> fst (get_repo_status scripted ''/repo/src''
            (script [Completed 0 '' M src/main.py\<newline>'' '''']))
        = Some \<lparr>modified = 1, added = 0, deleted = 0, clean = False\<rparr>"
  by code_simp

end
